theory Spec2Isabelle
  imports Main "HOL-Library.Word" "HOL-Library.Multiset" "HOL-Library.Sublist"
begin

unbundle bit_operations_syntax

section \<open>Values shared by all operations\<close>

text \<open>
  Go strings and byte slices are sequences of bytes: \<open>len\<close> counts bytes and a slice
  expression cuts at byte positions. A file name is a \<open>string\<close>, a buffer a list of bytes.
  \<open>gpgme.EncryptFlag\<close> is an unsigned bit mask that the code only compares and combines
  with bitwise or, so its width plays no role and it is a natural number.
\<close>

type_synonym byte = "8 word"
type_synonym EncryptFlag = nat

subsection \<open>Error values\<close>

text \<open>
  A Go \<open>error\<close> is either the sentinel \<open>io.EOF\<close>, an error handed over by the engine
  binding or by package \<open>os\<close> (known by its message), or an error built by
  \<open>fmt.Errorf\<close>. For the latter the constructor keeps the format's fixed text and the
  argument: a wrapped error (\<open>%w\<close>; the source wraps a nil error in one place), an
  operation tag (\<open>%v\<close>) or a string (\<open>%s\<close>, or no argument at all).
\<close>

datatype go_error =
    io_EOF
  | Foreign string
  | Errorf string "go_error option"
  | ErrorfV string EncryptFlag
  | ErrorfS string string

fun digit_char :: "nat \<Rightarrow> char" where
  "digit_char n = char_of (48 + n)"

fun itoa :: "nat \<Rightarrow> string" where
  "itoa n = (if n < 10 then [digit_char n] else itoa (n div 10) @ [digit_char (n mod 10)])"

declare itoa.simps [simp del]

text \<open>The method \<open>Error()\<close>: the message of an error value.\<close>

fun Error :: "go_error \<Rightarrow> string" where
  "Error io_EOF = ''EOF''"
| "Error (Foreign m) = m"
| "Error (Errorf p None) = p @ ''%!w(<nil>)''"
| "Error (Errorf p (Some e)) = p @ Error e"
| "Error (ErrorfV p f) = p @ itoa f"
| "Error (ErrorfS p s) = p @ s"

section \<open>The engine binding\<close>

text \<open>
  The functions of this package drive \<open>github.com/kulbartsch/gpgme\<close>, which is not part
  of the repository. Its handles are modelled by what their accessor methods return, and
  its calls by their outcomes, one field per call of the source. The outcome of a call
  is arbitrary: every theorem below quantifies over the whole record.
\<close>

datatype Validity =
    ValidityUnknown | ValidityUndefined | ValidityNever
  | ValidityMarginal | ValidityFull | ValidityUltimate

text \<open>A key signature of the engine (\<open>*gpgme.KeySig\<close>); times are instants.\<close>

record gpgme_KeySig =
  sig_KeyID :: string
  sig_Revoked :: bool
  sig_Expired :: bool
  sig_Invalid :: bool
  sig_Exportable :: bool
  sig_Created :: int
  sig_Expires :: int
  sig_DoesExpire :: bool
  sig_UID :: string
  sig_Name :: string
  sig_Email :: string
  sig_Comment :: string
  sig_TrustScope :: string
  sig_HasNotation :: bool

text \<open>
  A user ID of the engine (\<open>*gpgme.UserID\<close>). The chain reached by \<open>Signatures()\<close> and
  \<open>Next()\<close> is the list \<open>uid_Signatures\<close>; \<open>HasSig()\<close> is a method of its own.
\<close>

record gpgme_UserID =
  uid_UID :: string
  uid_Name :: string
  uid_Invalid :: bool
  uid_Revoked :: bool
  uid_Validity :: Validity
  uid_Address :: string
  uid_HasSig :: bool
  uid_Signatures :: "gpgme_KeySig list"

text \<open>
  A key of the engine (\<open>*gpgme.Key\<close>). The chain reached by \<open>UserIDs()\<close> and \<open>Next()\<close>
  is the list \<open>key_UserIDs\<close> (a nil handle is the empty list); \<open>HasUserIDs()\<close> is a
  method of its own, whose body is not in the repository.
\<close>

record gpgme_Key =
  key_Fingerprint :: string
  key_CanAuthenticate :: bool
  key_CanCertify :: bool
  key_CanEncrypt :: bool
  key_CanSign :: bool
  key_ChainID :: string
  key_Disabled :: bool
  key_Expired :: bool
  key_HasUserIDs :: bool
  key_Invalid :: bool
  key_IsQualified :: bool
  key_IssuerName :: string
  key_IssuerSerial :: string
  key_KeyListMode :: nat
  key_OwnerTrust :: Validity
  key_Protocol :: nat
  key_Revoked :: bool
  key_Secret :: bool
  key_UserIDs :: "gpgme_UserID list"

subsection \<open>The file system\<close>

text \<open>
  A path names a regular file with its content, a directory, or nothing. The three
  calls of package \<open>os\<close> that the source makes follow the package's documentation:
  \<open>Stat\<close> fails on a missing path; \<open>Remove\<close> removes the named file; \<open>Rename\<close> fails
  when the old path is missing, replaces a new path that exists and is not a directory,
  and fails when the new path is a directory. Renaming a path to itself changes
  nothing. Paths are compared as strings.
\<close>

datatype node = File "byte list" | Dir

type_synonym fs = "string \<Rightarrow> node option"

definition os_Stat :: "fs \<Rightarrow> string \<Rightarrow> go_error + bool" where
  "os_Stat f p =
     (case f p of
        None \<Rightarrow> Inl (Foreign (''stat '' @ p @ '': no such file or directory''))
      | Some n \<Rightarrow> Inr (n = Dir))"

definition os_Remove :: "fs \<Rightarrow> string \<Rightarrow> go_error + fs" where
  "os_Remove f p =
     (case f p of
        None \<Rightarrow> Inl (Foreign (''remove '' @ p @ '': no such file or directory''))
      | Some n \<Rightarrow> Inr (f(p := None)))"

definition os_Rename :: "fs \<Rightarrow> string \<Rightarrow> string \<Rightarrow> go_error + fs" where
  "os_Rename f old new =
     (case f old of
        None \<Rightarrow> Inl (Foreign (''rename '' @ old @ '' '' @ new @ '': no such file or directory''))
      | Some n \<Rightarrow>
          if old = new then Inr f
          else if f new = Some Dir
          then Inl (Foreign (''rename '' @ old @ '' '' @ new @ '': file exists''))
          else Inr (f(old := None, new := Some n)))"

subsection \<open>Calls and their outcomes\<close>

text \<open>
  Every call that leaves the package is recorded, in order, next to the files. The
  deferred \<open>Release\<close> and \<open>Close\<close> calls, which run when a function returns and free
  memory of the engine only, are not recorded.
\<close>

datatype event =
    Call_New
  | Call_SetProtocol
  | Call_NewData_in
  | Call_NewData_out
  | Call_SetFileName_in string
  | Call_SetFileName_out string
  | Call_FindKeys string bool
  | Call_Encrypt EncryptFlag string string
  | Call_EncryptSign EncryptFlag string string
  | Call_DecryptVerify string string
  | Call_DecryptResult
  | Call_VerifyResult
  | Call_Close_out
  | Call_Close_in
  | Os_Stat string
  | Os_Rename string string
  | Os_Remove string

record world =
  files :: fs
  trace :: "event list"

definition emit :: "event \<Rightarrow> world \<Rightarrow> world" where
  "emit ev w = w\<lparr>trace := trace w @ [ev]\<rparr>"

text \<open>
  The outcomes of the engine's calls. An operation on file-named data handles either
  fails and leaves the files as they are, or succeeds and delivers the bytes that it
  has left in the file named on the output handle. \<open>gpgme_Read g i n\<close> is what the
  \<open>i\<close>-th call of \<open>Read\<close> on the output buffer, with room for \<open>n\<close> bytes, returns: the bytes
  read and the error. The four flag constants are declared in the binding.
\<close>

record ('d, 's, 'v) gpgme =
  gpgme_EncryptAddRecp :: EncryptFlag
  gpgme_EncryptChgRecp :: EncryptFlag
  gpgme_EncryptFile :: EncryptFlag
  gpgme_EncryptAlwaysTrust :: EncryptFlag
  gpgme_New :: "go_error option"
  gpgme_SetProtocol :: "go_error option"
  gpgme_NewData_in :: "go_error option"
  gpgme_NewData_out :: "go_error option"
  gpgme_SetFileName_in :: "string \<Rightarrow> go_error option"
  gpgme_SetFileName_out :: "string \<Rightarrow> go_error option"
  gpgme_FindKeys :: "string \<Rightarrow> bool \<Rightarrow> go_error + gpgme_Key list"
  gpgme_Encrypt :: "fs \<Rightarrow> gpgme_Key list \<Rightarrow> EncryptFlag \<Rightarrow> string \<Rightarrow> string \<Rightarrow> go_error + byte list"
  gpgme_EncryptSign :: "fs \<Rightarrow> gpgme_Key list \<Rightarrow> EncryptFlag \<Rightarrow> string \<Rightarrow> string \<Rightarrow> go_error + byte list"
  gpgme_Close_out :: "go_error option"
  gpgme_Close_in :: "go_error option"
  gpgme_DecryptVerify :: "fs \<Rightarrow> string \<Rightarrow> string \<Rightarrow> go_error + byte list"
  gpgme_DecryptResult :: "go_error + 'd"
  gpgme_VerifyResult :: "go_error + string \<times> 's list"
  gpgme_Sign :: "gpgme_Key list \<Rightarrow> byte list \<Rightarrow> bool \<Rightarrow> go_error option"
  gpgme_Verify :: "byte list \<Rightarrow> go_error + string \<times> 'v list"
  gpgme_Rewind :: "go_error option"
  gpgme_Read :: "nat \<Rightarrow> nat \<Rightarrow> byte list \<times> go_error option"

section \<open>signatures.go\<close>

text \<open>
  The read loop of \<open>SignBytes\<close>. It returns the named results \<open>cipherText\<close>, \<open>n\<close> and
  \<open>err\<close> as they stand when the function returns. The loop ends only on a non-nil
  error, so it is a partial function: \<open>None\<close> stands for a run that never returns.
\<close>

partial_function (option) SignBytes_loop ::
  "('d, 's, 'v) gpgme \<Rightarrow> nat \<Rightarrow> byte list \<Rightarrow> (byte list \<times> nat \<times> go_error option) option"
where
  "SignBytes_loop g i cipherText =
     (case gpgme_Read g i 10240 of (part, err) \<Rightarrow>
        if err \<noteq> None \<and> err \<noteq> Some io_EOF
        then Some (cipherText, length part, Some (Errorf ''SignBytes - Read failed: '' err))
        else if err = Some io_EOF
        then Some (cipherText @ part, length part, err)
        else SignBytes_loop g (Suc i) (cipherText @ part))"

declare SignBytes_loop.simps [code]

text \<open>
  \<open>SignBytes\<close> returns \<open>(cipherText, n, signingFingerPrints, err)\<close>. Every \<open>return\<close> of
  the source is a bare one, so the results are the named variables as they stand.
\<close>

definition SignBytes ::
  "('d, 's, 'v) gpgme \<Rightarrow> byte list \<Rightarrow> string \<Rightarrow> bool
     \<Rightarrow> (byte list \<times> nat \<times> string list \<times> go_error option) option"
where
  "SignBytes g plainText signWith armored =
     (case gpgme_New g of
        Some e \<Rightarrow> Some ([], 0, [], Some (Errorf ''SignBytes - gpgme.New failed: '' (Some e)))
      | None \<Rightarrow>
     (case gpgme_SetProtocol g of
        Some e \<Rightarrow> Some ([], 0, [], Some (Errorf ''SignBytes - SetProtocol failed: '' (Some e)))
      | None \<Rightarrow>
     (case gpgme_NewData_in g of
        Some e \<Rightarrow> Some ([], 0, [], Some (Errorf ''SignBytes - NewData (in) failed: '' (Some e)))
      | None \<Rightarrow>
     (case gpgme_NewData_out g of
        Some e \<Rightarrow> Some ([], 0, [], Some (Errorf ''SignBytes - NewData (out) failed: '' (Some e)))
      | None \<Rightarrow>
     (case gpgme_FindKeys g signWith True of
        Inl e \<Rightarrow> Some ([], 0, [], Some (Errorf ''SignBytes - FindKeys (out) failed: '' (Some e)))
      | Inr keys \<Rightarrow>
     (let thisRecipients = keys;
          signingFingerPrints = map key_Fingerprint thisRecipients
      in
     (case gpgme_Sign g thisRecipients plainText armored of
        Some e \<Rightarrow>
          Some ([], 0, signingFingerPrints, Some (Errorf ''SignBytes - Encrypt failed: '' (Some e)))
      | None \<Rightarrow>
     (case gpgme_Rewind g of
        Some e \<Rightarrow>
          Some ([], 0, signingFingerPrints, Some (Errorf ''SignBytes - Rewind failed: '' (Some e)))
      | None \<Rightarrow>
     (case SignBytes_loop g 0 [] of
        None \<Rightarrow> None
      | Some (cipherText, n, err) \<Rightarrow> Some (cipherText, n, signingFingerPrints, err))))))))))"

text \<open>The read loop of \<open>VerifyBytes\<close>; it appends a chunk only when \<open>n > 0\<close>.\<close>

partial_function (option) VerifyBytes_loop ::
  "('d, 's, 'v) gpgme \<Rightarrow> nat \<Rightarrow> byte list \<Rightarrow> (byte list \<times> go_error option) option"
where
  "VerifyBytes_loop g i plainText =
     (case gpgme_Read g i 10240 of (part, err) \<Rightarrow>
        if err \<noteq> None \<and> err \<noteq> Some io_EOF
        then Some (plainText, Some (Errorf ''VerifyBytes - Read failed: '' err))
        else if err = Some io_EOF
        then Some (if length part > 0 then plainText @ part else plainText, err)
        else VerifyBytes_loop g (Suc i) (if length part > 0 then plainText @ part else plainText))"

declare VerifyBytes_loop.simps [code]

text \<open>\<open>VerifyBytes\<close> returns \<open>(plainText, signatures, filename, err)\<close>.\<close>

definition VerifyBytes ::
  "('d, 's, 'v) gpgme \<Rightarrow> byte list \<Rightarrow> (byte list \<times> 'v list \<times> string \<times> go_error option) option"
where
  "VerifyBytes g cipherText =
     (case gpgme_New g of
        Some e \<Rightarrow> Some ([], [], [], Some (Errorf ''VerifyBytes - gpgme.New failed: '' (Some e)))
      | None \<Rightarrow>
     (case gpgme_SetProtocol g of
        Some e \<Rightarrow> Some ([], [], [], Some (Errorf ''VerifyBytes - SetProtocol failed: '' (Some e)))
      | None \<Rightarrow>
     (case gpgme_NewData_in g of
        Some e \<Rightarrow> Some ([], [], [], Some (Errorf ''VerifyBytes - NewData (in) failed: '' (Some e)))
      | None \<Rightarrow>
     (case gpgme_NewData_out g of
        Some e \<Rightarrow> Some ([], [], [], Some (Errorf ''VerifyBytes - NewData (out) failed: '' (Some e)))
      | None \<Rightarrow>
     (case gpgme_Verify g cipherText of
        Inl e \<Rightarrow> Some ([], [], [], Some (Errorf ''VerifyBytes - Verify failed: '' (Some e)))
      | Inr (filename, signatures) \<Rightarrow>
     (case gpgme_Rewind g of
        Some e \<Rightarrow>
          Some ([], signatures, filename, Some (Errorf ''VerifyBytes - Rewind failed: '' (Some e)))
      | None \<Rightarrow>
     (case VerifyBytes_loop g 0 [] of
        None \<Rightarrow> None
      | Some (plainText, err) \<Rightarrow> Some (plainText, signatures, filename, err))))))))"

section \<open>keys.go\<close>

text \<open>
  The records of the package. Field names carry a letter for their record (\<open>K\<close> for
  \<open>KeyType\<close>, \<open>U\<close> for \<open>KeyUserIDsType\<close>, \<open>S\<close> for \<open>KeyUidIssuerSignatureType\<close>), since
  the three Go structs share field names. A nil slice and an empty slice are both the
  empty list; a nil map and an empty map are both the empty map.
\<close>

record KeyUidIssuerSignatureType =
  S_CreationTime :: int
  S_ExpirationTime :: int
  S_Expires :: bool
  S_IssuerKeyID :: string
  S_Revoked :: bool
  S_Expired :: bool
  S_Invalid :: bool
  S_Exportable :: bool
  S_UID :: string
  S_Name :: string
  S_Email :: string
  S_Comment :: string
  S_TrustScope :: string
  S_HasNotations :: bool

type_synonym KeyUidSignaturesType = "string \<Rightarrow> KeyUidIssuerSignatureType list option"

record KeyUserIDsType =
  U_UserID :: string
  U_Name :: string
  U_Invalid :: bool
  U_Revoked :: bool
  U_Validity :: Validity
  U_Address :: string
  U_HasSignatures :: bool
  U_Signatures :: KeyUidSignaturesType

record KeyType =
  K_Fingerprint :: string
  K_CanAuthenticate :: bool
  K_CanCertify :: bool
  K_CanEncrypt :: bool
  K_CanSign :: bool
  K_ChainID :: string
  K_Disabled :: bool
  K_Expired :: bool
  K_HasUserIDs :: bool
  K_Invalid :: bool
  K_IsQualified :: bool
  K_IssuerName :: string
  K_IssuerSerial :: string
  K_KeyListMode :: nat
  K_OwnerTrust :: Validity
  K_Protocol :: nat
  K_Revoked :: bool
  K_Secret :: bool
  K_UserIDs :: "KeyUserIDsType list"

text \<open>\<open>a.Compare(b)\<close> of \<open>time.Time\<close>: \<open>-1\<close>, \<open>0\<close> or \<open>+1\<close>.\<close>

definition time_Compare :: "int \<Rightarrow> int \<Rightarrow> int" where
  "time_Compare a b = (if a < b then - 1 else if b < a then 1 else 0)"

text \<open>The comparison function that \<open>fillUidSignatures\<close> hands to \<open>slices.SortFunc\<close>.\<close>

definition cmp_CreationTime ::
  "KeyUidIssuerSignatureType \<Rightarrow> KeyUidIssuerSignatureType \<Rightarrow> int"
where
  "cmp_CreationTime a b = time_Compare (S_CreationTime b) (S_CreationTime a)"

text \<open>
  \<open>slices.SortFunc\<close> belongs to Go's library, and its algorithm is not stable. The
  builder therefore takes the sorting function as an argument, and \<open>SortFunc_sorts\<close>
  is what the library promises of it for a comparison function \<open>cmp\<close>: the result holds
  the same elements, and no element is smaller, by \<open>cmp\<close>, than one before it.
\<close>

definition SortFunc_sorts :: "(('a \<Rightarrow> 'a \<Rightarrow> int) \<Rightarrow> 'a list \<Rightarrow> 'a list) \<Rightarrow> ('a \<Rightarrow> 'a \<Rightarrow> int) \<Rightarrow> bool" where
  "SortFunc_sorts SortFunc cmp \<longleftrightarrow>
     (\<forall>xs. mset (SortFunc cmp xs) = mset xs \<and>
           sorted_wrt (\<lambda>a b. \<not> cmp b a < 0) (SortFunc cmp xs))"

text \<open>One sorting function to run the builder with: sorting by insertion.\<close>

fun insert_by :: "('a \<Rightarrow> 'a \<Rightarrow> int) \<Rightarrow> 'a \<Rightarrow> 'a list \<Rightarrow> 'a list" where
  "insert_by cmp x [] = [x]"
| "insert_by cmp x (y # ys) = (if cmp x y \<le> 0 then x # y # ys else y # insert_by cmp x ys)"

definition insertion_SortFunc :: "('a \<Rightarrow> 'a \<Rightarrow> int) \<Rightarrow> 'a list \<Rightarrow> 'a list" where
  "insertion_SortFunc cmp xs = foldr (insert_by cmp) xs []"

text \<open>The assignments to \<open>oneSig\<close> in the loop of \<open>fillUidSignatures\<close>.\<close>

definition oneSig_of :: "gpgme_KeySig \<Rightarrow> KeyUidIssuerSignatureType" where
  "oneSig_of sig =
     \<lparr> S_CreationTime = sig_Created sig,
       S_ExpirationTime = sig_Expires sig,
       S_Expires = sig_DoesExpire sig,
       S_IssuerKeyID = sig_KeyID sig,
       S_Revoked = sig_Revoked sig,
       S_Expired = sig_Expired sig,
       S_Invalid = sig_Invalid sig,
       S_Exportable = sig_Exportable sig,
       S_UID = sig_UID sig,
       S_Name = sig_Name sig,
       S_Email = sig_Email sig,
       S_Comment = sig_Comment sig,
       S_TrustScope = sig_TrustScope sig,
       S_HasNotations = sig_HasNotation sig \<rparr>"

text \<open>
  The first loop of \<open>fillUidSignatures\<close>: \<open>sigs[keyID] = append(sigs[keyID], oneSig)\<close>
  for every signature of the chain; a missing key reads as the nil slice.
\<close>

fun collect_sigs :: "gpgme_KeySig list \<Rightarrow> KeyUidSignaturesType \<Rightarrow> KeyUidSignaturesType" where
  "collect_sigs [] sigs = sigs"
| "collect_sigs (sig # rest) sigs =
     (let keyID = sig_KeyID sig;
          oneSig = oneSig_of sig
      in collect_sigs rest
           (sigs(keyID \<mapsto> (case sigs keyID of None \<Rightarrow> [] | Some s \<Rightarrow> s) @ [oneSig])))"

text \<open>The second loop sorts the slice of every issuer in place.\<close>

definition fillUidSignatures ::
  "((KeyUidIssuerSignatureType \<Rightarrow> KeyUidIssuerSignatureType \<Rightarrow> int)
      \<Rightarrow> KeyUidIssuerSignatureType list \<Rightarrow> KeyUidIssuerSignatureType list)
    \<Rightarrow> gpgme_UserID \<Rightarrow> KeyUidSignaturesType"
where
  "fillUidSignatures SortFunc uid =
     (let sigs = collect_sigs (uid_Signatures uid) Map.empty
      in (\<lambda>keyID. map_option (SortFunc cmp_CreationTime) (sigs keyID)))"

fun fillUserIDs ::
  "((KeyUidIssuerSignatureType \<Rightarrow> KeyUidIssuerSignatureType \<Rightarrow> int)
      \<Rightarrow> KeyUidIssuerSignatureType list \<Rightarrow> KeyUidIssuerSignatureType list)
    \<Rightarrow> gpgme_UserID list \<Rightarrow> KeyUserIDsType list"
where
  "fillUserIDs SortFunc [] = []"
| "fillUserIDs SortFunc (uid # next) =
     \<lparr> U_UserID = uid_UID uid,
       U_Name = uid_Name uid,
       U_Invalid = uid_Invalid uid,
       U_Revoked = uid_Revoked uid,
       U_Validity = uid_Validity uid,
       U_Address = uid_Address uid,
       U_HasSignatures = uid_HasSig uid,
       U_Signatures = (if uid_HasSig uid then fillUidSignatures SortFunc uid else Map.empty) \<rparr>
     # fillUserIDs SortFunc next"

definition fillKey ::
  "((KeyUidIssuerSignatureType \<Rightarrow> KeyUidIssuerSignatureType \<Rightarrow> int)
      \<Rightarrow> KeyUidIssuerSignatureType list \<Rightarrow> KeyUidIssuerSignatureType list)
    \<Rightarrow> gpgme_Key \<Rightarrow> KeyType"
where
  "fillKey SortFunc k =
     \<lparr> K_Fingerprint = key_Fingerprint k,
       K_CanAuthenticate = key_CanAuthenticate k,
       K_CanCertify = key_CanCertify k,
       K_CanEncrypt = key_CanEncrypt k,
       K_CanSign = key_CanSign k,
       K_ChainID = key_ChainID k,
       K_Disabled = key_Disabled k,
       K_Expired = key_Expired k,
       K_HasUserIDs = key_HasUserIDs k,
       K_Invalid = key_Invalid k,
       K_IsQualified = key_IsQualified k,
       K_IssuerName = key_IssuerName k,
       K_IssuerSerial = key_IssuerSerial k,
       K_KeyListMode = key_KeyListMode k,
       K_OwnerTrust = key_OwnerTrust k,
       K_Protocol = key_Protocol k,
       K_Revoked = key_Revoked k,
       K_Secret = key_Secret k,
       K_UserIDs = (if key_HasUserIDs k then fillUserIDs SortFunc (key_UserIDs k) else []) \<rparr>"

section \<open>encrypt.go\<close>

text \<open>
  The loop over the recipients, shared by \<open>ModRecipients\<close> and \<open>EncryptFile\<close>: every
  pattern is looked up on its own, and the first failing lookup ends the loop with its
  error.
\<close>

fun findRecipients ::
  "('d, 's, 'v) gpgme \<Rightarrow> string list \<Rightarrow> gpgme_Key list \<Rightarrow> world
     \<Rightarrow> (go_error + gpgme_Key list) \<times> world"
where
  "findRecipients g [] thisRecipients w = (Inr thisRecipients, w)"
| "findRecipients g (r # rs) thisRecipients w =
     (let w' = emit (Call_FindKeys r False) w in
      case gpgme_FindKeys g r False of
        Inl e \<Rightarrow> (Inl e, w')
      | Inr keys \<Rightarrow> findRecipients g rs (thisRecipients @ keys) w')"

text \<open>
  \<open>ModRecipients\<close>. The argument \<open>rnd\<close> is the string that \<open>RandomString(8)\<close> returns in
  this call. The result is the returned error (\<open>None\<close> for nil) and the world after the
  call.
\<close>

definition ModRecipients ::
  "('d, 's, 'v) gpgme \<Rightarrow> string \<Rightarrow> EncryptFlag \<Rightarrow> string \<Rightarrow> string \<Rightarrow> string list \<Rightarrow> world
     \<Rightarrow> go_error option \<times> world"
where
  "ModRecipients g rnd operation filename backupExtension recipients w0 =
     (if operation \<noteq> gpgme_EncryptAddRecp g \<and> operation \<noteq> gpgme_EncryptChgRecp g
      then (Some (ErrorfV ''ModRecipients - invalid operation: '' operation), w0)
      else
     (let w1 = emit (Os_Stat filename) w0 in
     (case os_Stat (files w1) filename of
        Inl e \<Rightarrow> (Some (Errorf ''ModRecipients - file does not exist: '' (Some e)), w1)
      | Inr isDir \<Rightarrow>
     (if isDir
      then (Some (Errorf ''ModRecipients - file is a directory: '' None), w1)
      else
     (let w2 = emit Call_New w1 in
     (case gpgme_New g of
        Some e \<Rightarrow> (Some (Errorf ''ModRecipients - gpgme.New failed: '' (Some e)), w2)
      | None \<Rightarrow>
     (let w3 = emit Call_SetProtocol w2 in
     (case gpgme_SetProtocol g of
        Some e \<Rightarrow> (Some (Errorf ''ModRecipients - SetProtocol failed: '' (Some e)), w3)
      | None \<Rightarrow>
     (let w4 = emit Call_NewData_in w3 in
     (case gpgme_NewData_in g of
        Some e \<Rightarrow> (Some (Errorf ''ModRecipients - NewData (in) failed: '' (Some e)), w4)
      | None \<Rightarrow>
     (let w5 = emit (Call_SetFileName_in filename) w4 in
     (case gpgme_SetFileName_in g filename of
        Some e \<Rightarrow> (Some (Errorf ''ModRecipients - SetFileName (in) failed: '' (Some e)), w5)
      | None \<Rightarrow>
     (let w6 = emit Call_NewData_out w5 in
     (case gpgme_NewData_out g of
        Some e \<Rightarrow> (Some (Errorf ''ModRecipients - NewData (out) failed: '' (Some e)), w6)
      | None \<Rightarrow>
     (let randomFilePart = ''.'' @ rnd;
          outFilename = filename @ randomFilePart @ ''.tmp'';
          w7 = emit (Call_SetFileName_out outFilename) w6
      in
     (case gpgme_SetFileName_out g outFilename of
        Some e \<Rightarrow> (Some (Errorf ''ModRecipients - SetFileName (out) failed: '' (Some e)), w7)
      | None \<Rightarrow>
     (case findRecipients g recipients [] w7 of
        (Inl e, w8) \<Rightarrow> (Some (Errorf ''ModRecipients - FindKeys failed: '' (Some e)), w8)
      | (Inr thisRecipients, w8) \<Rightarrow>
     (let flags = operation OR gpgme_EncryptFile g;
          w9 = emit (Call_Encrypt flags filename outFilename) w8
      in
     (case gpgme_Encrypt g (files w9) thisRecipients flags filename outFilename of
        Inl e \<Rightarrow> (Some (Errorf ''ModRecipients - Encrypt failed: '' (Some e)), w9)
      | Inr output \<Rightarrow>
     (let w10 = emit Call_Close_out (w9\<lparr>files := (files w9)(outFilename \<mapsto> File output)\<rparr>) in
     (case gpgme_Close_out g of
        Some e \<Rightarrow> (Some (Errorf ''ModRecipients - Close (out) failed: '' (Some e)), w10)
      | None \<Rightarrow>
     (let w11 = emit Call_Close_in w10 in
     (case gpgme_Close_in g of
        Some e \<Rightarrow> (Some (Errorf ''ModRecipients - Close (in) failed: '' (Some e)), w11)
      | None \<Rightarrow>
     (let backup = filename @ randomFilePart @ backupExtension;
          w12 = (if backupExtension \<noteq> [] then emit (Os_Rename filename backup) w11
                 else emit (Os_Remove filename) w11);
          step1 = (if backupExtension \<noteq> []
                   then (case os_Rename (files w12) filename backup of
                           Inl e \<Rightarrow> Inl (Errorf ''ModRecipients - file rename (1) failed: '' (Some e))
                         | Inr f \<Rightarrow> Inr f)
                   else (case os_Remove (files w12) filename of
                           Inl e \<Rightarrow> Inl (Errorf ''ModRecipients - file remove failed: '' (Some e))
                         | Inr f \<Rightarrow> Inr f))
      in
     (case step1 of
        Inl err \<Rightarrow> (Some err, w12)
      | Inr f \<Rightarrow>
     (let w13 = emit (Os_Rename outFilename filename) (w12\<lparr>files := f\<rparr>) in
     (case os_Rename (files w13) outFilename filename of
        Inl e \<Rightarrow> (Some (Errorf ''ModRecipients - file rename (2) failed: '' (Some e)), w13)
      | Inr f' \<Rightarrow> (None, w13\<lparr>files := f'\<rparr>))))))))))))))))))))))))))))"



text \<open>
  The choice of the destination in \<open>DecryptFile\<close> (the block that sets \<open>destination\<close>):
  \<open>s[len(s)-4:]\<close> is \<open>drop (length s - 4) s\<close> and \<open>s[:len(s)-4]\<close> is
  \<open>take (length s - 4) s\<close>; the test \<open>len(s) > 4\<close> comes first, so neither slice is
  taken out of range. The error of the last branch is \<open>no_extension_error\<close>.
\<close>

definition no_extension_error :: go_error where
  "no_extension_error =
     ErrorfS (''DecryptFile - no destination filename given, and no `.gpg` or `.pgp` '' @
              ''or `.asc` extension found'') []"

definition DecryptFile_destination :: "string \<Rightarrow> string \<Rightarrow> go_error + string" where
  "DecryptFile_destination cypherFilename clearFilename =
     (if clearFilename = []
      then
        (if length cypherFilename > 4 \<and>
            (drop (length cypherFilename - 4) cypherFilename = ''.gpg'' \<or>
             drop (length cypherFilename - 4) cypherFilename = ''.pgp'' \<or>
             drop (length cypherFilename - 4) cypherFilename = ''.asc'')
         then Inr (take (length cypherFilename - 4) cypherFilename)
         else Inl no_extension_error)
      else Inr clearFilename)"

text \<open>
  The end of \<open>DecryptFile\<close>, from the call of \<open>DecryptResult\<close> on. It is reached with the
  warning as it stands: empty after a successful decrypt+verify call, set after one
  that reported \<open>No data\<close>.
\<close>

definition DecryptFile_results ::
  "('d, 's, 'v) gpgme \<Rightarrow> string \<Rightarrow> world
     \<Rightarrow> ('d option \<times> string \<times> 's list \<times> string \<times> go_error option) \<times> world"
where
  "DecryptFile_results g warning w9 =
     (let w10 = emit Call_DecryptResult w9 in
     (case gpgme_DecryptResult g of
        Inl e \<Rightarrow>
          ((None, [], [], warning,
            Some (Errorf ''DecryptFile - DecryptResult failed: '' (Some e))), w10)
      | Inr decryptionResult \<Rightarrow>
     (let w11 = emit Call_VerifyResult w10 in
     (case gpgme_VerifyResult g of
        Inl e \<Rightarrow>
          ((Some decryptionResult, [], [], warning,
            Some (Errorf ''DecryptFile - VerifyResult failed: '' (Some e))), w11)
      | Inr (filename, signatures) \<Rightarrow>
          ((Some decryptionResult, filename, signatures, warning, None), w11)))))"

text \<open>
  \<open>DecryptFile\<close> returns \<open>(decryptionResult, filename, signatures, warning, err)\<close>. A
  result that was never assigned is its zero value: \<open>None\<close> for the decryption result,
  the empty string, the empty list. A call that fails delivers zero values next to its
  error.
\<close>

definition DecryptFile ::
  "('d, 's, 'v) gpgme \<Rightarrow> string \<Rightarrow> string \<Rightarrow> world
     \<Rightarrow> ('d option \<times> string \<times> 's list \<times> string \<times> go_error option) \<times> world"
where
  "DecryptFile g cypherFilename clearFilename w0 =
     (let w1 = emit (Os_Stat cypherFilename) w0 in
     (case os_Stat (files w1) cypherFilename of
        Inl e \<Rightarrow>
          ((None, [], [], [], Some (Errorf ''DecryptFile - file does not exist: '' (Some e))), w1)
      | Inr isDir \<Rightarrow>
     (if isDir
      then ((None, [], [], [], Some (Errorf ''DecryptFile - file is a directory: '' None)), w1)
      else
     (let w2 = emit Call_New w1 in
     (case gpgme_New g of
        Some e \<Rightarrow>
          ((None, [], [], [], Some (Errorf ''DecryptFile - gpgme.New failed: '' (Some e))), w2)
      | None \<Rightarrow>
     (let w3 = emit Call_SetProtocol w2 in
     (case gpgme_SetProtocol g of
        Some e \<Rightarrow>
          ((None, [], [], [], Some (Errorf ''DecryptFile - SetProtocol failed: '' (Some e))), w3)
      | None \<Rightarrow>
     (let w4 = emit Call_NewData_in w3 in
     (case gpgme_NewData_in g of
        Some e \<Rightarrow>
          ((None, [], [], [], Some (Errorf ''DecryptFile - NewData (in) failed: '' (Some e))), w4)
      | None \<Rightarrow>
     (let w5 = emit (Call_SetFileName_in cypherFilename) w4 in
     (case gpgme_SetFileName_in g cypherFilename of
        Some e \<Rightarrow>
          ((None, [], [], [],
            Some (Errorf ''DecryptFile - SetFileName (in) failed: '' (Some e))), w5)
      | None \<Rightarrow>
     (let w6 = emit Call_NewData_out w5 in
     (case gpgme_NewData_out g of
        Some e \<Rightarrow>
          ((None, [], [], [], Some (Errorf ''DecryptFile - NewData (out) failed: '' (Some e))), w6)
      | None \<Rightarrow>
     (case DecryptFile_destination cypherFilename clearFilename of
        Inl err \<Rightarrow> ((None, [], [], [], Some err), w6)
      | Inr destination \<Rightarrow>
     (let w7 = emit (Os_Stat destination) w6 in
     (case os_Stat (files w7) destination of
        Inr isDir' \<Rightarrow>
          ((None, [], [], [],
            Some (ErrorfS ''DecryptFile - destination file exists: '' destination)), w7)
      | Inl notFound \<Rightarrow>
     (let w8 = emit (Call_SetFileName_out destination) w7 in
     (case gpgme_SetFileName_out g destination of
        Some e \<Rightarrow>
          ((None, [], [], [],
            Some (Errorf ''DecryptFile - SetFileName (out) failed: '' (Some e))), w8)
      | None \<Rightarrow>
     (let w9 = emit (Call_DecryptVerify cypherFilename destination) w8 in
     (case gpgme_DecryptVerify g (files w9) cypherFilename destination of
        Inl e \<Rightarrow>
          if Error e = ''No data''
          then DecryptFile_results g ''DecryptFile - DecryptVerify: no encrypted data'' w9
          else ((None, [], [], [],
                 Some (Errorf ''DecryptFile - DecryptVerify failed: '' (Some e))), w9)
      | Inr output \<Rightarrow>
          DecryptFile_results g []
            (w9\<lparr>files := (files w9)(destination \<mapsto> File output)\<rparr>)))))))))))))))))))))"

section \<open>Concrete inputs\<close>

text \<open>
  An engine whose calls all succeed, a key, a signed user ID and two small file
  systems. The theorems below are stated for every engine and every world; these
  values serve to run the definitions.
\<close>

definition demo_key :: "string \<Rightarrow> gpgme_Key" where
  "demo_key fpr =
     \<lparr> key_Fingerprint = fpr, key_CanAuthenticate = False, key_CanCertify = True,
       key_CanEncrypt = True, key_CanSign = True, key_ChainID = [], key_Disabled = False,
       key_Expired = False, key_HasUserIDs = False, key_Invalid = False,
       key_IsQualified = False, key_IssuerName = [], key_IssuerSerial = [],
       key_KeyListMode = 1, key_OwnerTrust = ValidityUltimate, key_Protocol = 0,
       key_Revoked = False, key_Secret = False, key_UserIDs = [] \<rparr>"

definition demo_sig :: "string \<Rightarrow> int \<Rightarrow> gpgme_KeySig" where
  "demo_sig issuer created =
     \<lparr> sig_KeyID = issuer, sig_Revoked = False, sig_Expired = False, sig_Invalid = False,
       sig_Exportable = True, sig_Created = created, sig_Expires = 0, sig_DoesExpire = False,
       sig_UID = ''Alice'', sig_Name = ''Alice'', sig_Email = [], sig_Comment = [],
       sig_TrustScope = [], sig_HasNotation = False \<rparr>"

definition demo_uid :: gpgme_UserID where
  "demo_uid =
     \<lparr> uid_UID = ''Alice'', uid_Name = ''Alice'', uid_Invalid = False, uid_Revoked = False,
       uid_Validity = ValidityFull, uid_Address = [], uid_HasSig = True,
       uid_Signatures =
         [demo_sig ''AAAA'' 20, demo_sig ''BBBB'' 5, demo_sig ''AAAA'' 10, demo_sig ''AAAA'' 30] \<rparr>"

definition demo_signed_key :: gpgme_Key where
  "demo_signed_key = (demo_key ''F00D'')\<lparr>key_HasUserIDs := True, key_UserIDs := [demo_uid]\<rparr>"

definition demo_engine :: "(nat, nat, nat) gpgme" where
  "demo_engine =
     \<lparr> gpgme_EncryptAddRecp = 2048, gpgme_EncryptChgRecp = 4096,
       gpgme_EncryptFile = 1024, gpgme_EncryptAlwaysTrust = 1,
       gpgme_New = None, gpgme_SetProtocol = None,
       gpgme_NewData_in = None, gpgme_NewData_out = None,
       gpgme_SetFileName_in = (\<lambda>name. None), gpgme_SetFileName_out = (\<lambda>name. None),
       gpgme_FindKeys = (\<lambda>pattern secret. Inr [demo_key pattern]),
       gpgme_Encrypt = (\<lambda>f keys flags inName outName. Inr [1, 2, 3]),
       gpgme_EncryptSign = (\<lambda>f keys flags inName outName. Inr [4, 5]),
       gpgme_Close_out = None, gpgme_Close_in = None,
       gpgme_DecryptVerify = (\<lambda>f inName outName. Inr [7]),
       gpgme_DecryptResult = Inr 0,
       gpgme_VerifyResult = Inr ([], []),
       gpgme_Sign = (\<lambda>keys plain armored. None),
       gpgme_Verify = (\<lambda>signed. Inr ([], [])),
       gpgme_Rewind = None,
       gpgme_Read = (\<lambda>i n. if i = 0 then ([1, 2], None) else ([3], Some io_EOF)) \<rparr>"

text \<open>The same engine with a second read that fails.\<close>

definition demo_engine_read_fails :: "(nat, nat, nat) gpgme" where
  "demo_engine_read_fails =
     demo_engine\<lparr>gpgme_Read :=
       (\<lambda>i n. if i = 0 then ([1, 2], None) else ([], Some (Foreign ''boom'')))\<rparr>"

text \<open>The same engine with a decrypt+verify call that fails with the given message.\<close>

definition demo_engine_decrypt_fails :: "string \<Rightarrow> (nat, nat, nat) gpgme" where
  "demo_engine_decrypt_fails msg =
     demo_engine\<lparr>gpgme_DecryptVerify := (\<lambda>f inName outName. Inl (Foreign msg))\<rparr>"


definition demo_world :: "string \<Rightarrow> world" where
  "demo_world name = \<lparr> files = [name \<mapsto> File [9, 9]], trace = [] \<rparr>"



section \<open>Auxiliary facts\<close>

lemma files_emit [simp]: "files (emit ev w) = files w"
  by (simp add: emit_def)

lemma trace_emit [simp]: "trace (emit ev w) = trace w @ [ev]"
  by (simp add: emit_def)

text \<open>The lookup loop leaves the files alone and records lookups only.\<close>

lemma findRecipients_world:
  "findRecipients g rs acc w = (r, w') \<Longrightarrow>
     files w' = files w \<and>
     (\<exists>evs. trace w' = trace w @ evs \<and> (\<forall>ev \<in> set evs. \<exists>p. ev = Call_FindKeys p False))"
proof (induction rs arbitrary: acc w)
  case Nil
  then show ?case by auto
next
  case (Cons a rs)
  show ?case
  proof (cases "gpgme_FindKeys g a False")
    case (Inl e)
    with Cons.prems show ?thesis by (auto simp: Let_def)
  next
    case (Inr keys)
    with Cons.prems
    have "findRecipients g rs (acc @ keys) (emit (Call_FindKeys a False) w) = (r, w')"
      by (simp add: Let_def)
    from Cons.IH [OF this] show ?thesis by auto
  qed
qed


section \<open>Recipient modification\<close>

text \<open>
  What a call of \<open>ModRecipients\<close> that returns nil has done: the engine delivered an
  output for the temporary name, both data handles were closed, and then the source
  was renamed to the backup name (or removed, when no backup extension was given) and
  the temporary file was renamed to the source, in this order and with nothing after
  it. Unless the backup extension is \<open>.tmp\<close>, the source path then holds the output.
\<close>

lemma ModRecipients_commit_order:
  assumes eq: "ModRecipients g rnd operation filename backupExtension recipients w = (None, w')"
  shows "\<exists>evs keys output.
     gpgme_Encrypt g (files w) keys (operation OR gpgme_EncryptFile g) filename
        (filename @ ''.'' @ rnd @ ''.tmp'') = Inr output \<and>
     trace w' =
       trace w @ evs @
       [Call_Encrypt (operation OR gpgme_EncryptFile g) filename
          (filename @ ''.'' @ rnd @ ''.tmp''),
        Call_Close_out, Call_Close_in,
        (if backupExtension \<noteq> []
         then Os_Rename filename (filename @ ''.'' @ rnd @ backupExtension)
         else Os_Remove filename),
        Os_Rename (filename @ ''.'' @ rnd @ ''.tmp'') filename] \<and>
     (backupExtension \<noteq> ''.tmp'' \<longrightarrow> files w' filename = Some (File output))"
proof -
  obtain r w8 where fr: "findRecipients g recipients []
      (emit (Call_SetFileName_out (filename @ ''.'' @ rnd @ ''.tmp''))
        (emit Call_NewData_out (emit (Call_SetFileName_in filename) (emit Call_NewData_in
          (emit Call_SetProtocol (emit Call_New (emit (Os_Stat filename) w))))))) = (r, w8)"
    by (cases "findRecipients g recipients []
      (emit (Call_SetFileName_out (filename @ ''.'' @ rnd @ ''.tmp''))
        (emit Call_NewData_out (emit (Call_SetFileName_in filename) (emit Call_NewData_in
          (emit Call_SetProtocol (emit Call_New (emit (Os_Stat filename) w)))))))") auto
  from findRecipients_world [OF fr] obtain evs where
    f8: "files w8 = files w" and
    t8: "trace w8 = trace w @ [Os_Stat filename, Call_New, Call_SetProtocol, Call_NewData_in,
         Call_SetFileName_in filename, Call_NewData_out,
         Call_SetFileName_out (filename @ ''.'' @ rnd @ ''.tmp'')] @ evs"
    by auto
  show ?thesis
    using eq fr f8 t8
    apply (simp add: ModRecipients_def Let_def
             split: if_split_asm sum.split_asm option.split_asm)
     apply (auto simp: os_Rename_def os_Remove_def os_Stat_def
              split: if_split_asm option.split_asm)
       apply blast+
    done
qed

text \<open>
  With the backup extension \<open>.tmp\<close> the backup name is the temporary name. Every
  call that then returns nil leaves the source path with what it held before the
  call, and leaves no file under the temporary name.
\<close>

lemma ModRecipients_tmp_backup_keeps_source:
  assumes eq: "ModRecipients g rnd operation filename ''.tmp'' recipients w = (None, w')"
  shows "files w' filename = files w filename \<and>
         files w' (filename @ ''.'' @ rnd @ ''.tmp'') = None"
proof -
  obtain r w8 where fr: "findRecipients g recipients []
      (emit (Call_SetFileName_out (filename @ ''.'' @ rnd @ ''.tmp''))
        (emit Call_NewData_out (emit (Call_SetFileName_in filename) (emit Call_NewData_in
          (emit Call_SetProtocol (emit Call_New (emit (Os_Stat filename) w))))))) = (r, w8)"
    by (cases "findRecipients g recipients []
      (emit (Call_SetFileName_out (filename @ ''.'' @ rnd @ ''.tmp''))
        (emit Call_NewData_out (emit (Call_SetFileName_in filename) (emit Call_NewData_in
          (emit Call_SetProtocol (emit Call_New (emit (Os_Stat filename) w)))))))") auto
  from findRecipients_world [OF fr] have f8: "files w8 = files w"
    by auto
  show ?thesis
    using eq fr f8
    apply (simp add: ModRecipients_def Let_def
             split: if_split_asm sum.split_asm option.split_asm)
     apply (auto simp: os_Rename_def os_Remove_def os_Stat_def
              split: if_split_asm option.split_asm)
    done
qed

text \<open>
  Claim C1. A successful call of \<open>ModRecipients\<close> on the file \<open>f\<close> renames \<open>f\<close>
  to the backup name (or removes it), then renames the temporary output to \<open>f\<close>, so
  that \<open>f\<close> holds the engine's output. The backup name and the temporary name share
  the random part, so with the backup extension \<open>.tmp\<close> they are the same path: the
  first rename puts the original over the engine's output and the second one moves it
  back. The call below returns nil, \<open>f.gpg\<close> still holds the original bytes \<open>[9, 9]\<close>,
  the output \<open>[1, 2, 3]\<close> of the engine is in no file, and no backup is left.
\<close>

theorem ModRecipients_backup_extension_tmp:
  "gpgme_Encrypt demo_engine (files (demo_world ''f.gpg'')) [demo_key ''alice'']
     (gpgme_EncryptAddRecp demo_engine OR gpgme_EncryptFile demo_engine)
     ''f.gpg'' ''f.gpg.abcdefgh.tmp'' = Inr [1, 2, 3] \<and>
   fst (ModRecipients demo_engine ''abcdefgh'' (gpgme_EncryptAddRecp demo_engine)
          ''f.gpg'' ''.tmp'' [''alice''] (demo_world ''f.gpg'')) = None \<and>
   files (snd (ModRecipients demo_engine ''abcdefgh'' (gpgme_EncryptAddRecp demo_engine)
          ''f.gpg'' ''.tmp'' [''alice''] (demo_world ''f.gpg''))) ''f.gpg''
     = Some (File [9, 9]) \<and>
   files (snd (ModRecipients demo_engine ''abcdefgh'' (gpgme_EncryptAddRecp demo_engine)
          ''f.gpg'' ''.tmp'' [''alice''] (demo_world ''f.gpg''))) ''f.gpg.abcdefgh.tmp''
     = None \<and>
   trace (snd (ModRecipients demo_engine ''abcdefgh'' (gpgme_EncryptAddRecp demo_engine)
          ''f.gpg'' ''.tmp'' [''alice''] (demo_world ''f.gpg''))) =
     [Os_Stat ''f.gpg'', Call_New, Call_SetProtocol, Call_NewData_in,
      Call_SetFileName_in ''f.gpg'', Call_NewData_out,
      Call_SetFileName_out ''f.gpg.abcdefgh.tmp'', Call_FindKeys ''alice'' False,
      Call_Encrypt 3072 ''f.gpg'' ''f.gpg.abcdefgh.tmp'', Call_Close_out, Call_Close_in,
      Os_Rename ''f.gpg'' ''f.gpg.abcdefgh.tmp'', Os_Rename ''f.gpg.abcdefgh.tmp'' ''f.gpg'']"
  by (simp add: ModRecipients_def demo_engine_def demo_world_def os_Stat_def os_Rename_def
        os_Remove_def Let_def)

text \<open>
  Claim C6. For an operation tag that is neither \<open>EncryptAddRecp\<close> nor
  \<open>EncryptChgRecp\<close>, and for all other arguments, \<open>ModRecipients\<close> returns the
  invalid-operation error and leaves the world as it was: the files are untouched and
  no call is recorded, neither of package \<open>os\<close> nor of the engine.
\<close>

theorem ModRecipients_invalid_operation:
  assumes "operation \<noteq> gpgme_EncryptAddRecp g" and "operation \<noteq> gpgme_EncryptChgRecp g"
  shows "ModRecipients g rnd operation filename backupExtension recipients w =
           (Some (ErrorfV ''ModRecipients - invalid operation: '' operation), w)"
  using assms by (simp add: ModRecipients_def)

theorem ModRecipients_invalid_operation_witness:
  "(0::nat) \<noteq> gpgme_EncryptAddRecp demo_engine \<and>
   (0::nat) \<noteq> gpgme_EncryptChgRecp demo_engine \<and>
   ModRecipients demo_engine ''abcdefgh'' 0 ''f.gpg'' ''.bak'' [''alice''] (demo_world ''f.gpg'') =
     (Some (ErrorfV ''ModRecipients - invalid operation: '' 0), demo_world ''f.gpg'')"
  using ModRecipients_invalid_operation
          [of 0 demo_engine "''abcdefgh''" "''f.gpg''" "''.bak''" "[''alice'']"
              "demo_world ''f.gpg''"]
  by (simp add: demo_engine_def)

section \<open>Decryption to a file\<close>




text \<open>
  Claim C3. When the engine's decrypt+verify call of \<open>DecryptFile\<close> fails with the
  message \<open>No data\<close>, the failure becomes the returned warning string and the call goes
  on: the decryption result and the verify result are asked for, in this order, and
  what they deliver is returned, with a nil error when both are delivered. When the
  call fails with any other message, \<open>DecryptFile\<close> returns the wrapped error with no
  results and no warning, and neither result is asked for.
\<close>

theorem DecryptFile_no_data_is_warning:
  assumes "os_Stat (files w) cypherFilename = Inr False" and "gpgme_New g = None"
    and "gpgme_SetProtocol g = None" and "gpgme_NewData_in g = None"
    and "gpgme_SetFileName_in g cypherFilename = None" and "gpgme_NewData_out g = None"
    and "DecryptFile_destination cypherFilename clearFilename = Inr destination"
    and "files w destination = None"
    and "gpgme_SetFileName_out g destination = None"
    and "gpgme_DecryptVerify g (files w) cypherFilename destination = Inl e"
  shows "(Error e = ''No data'' \<longrightarrow>
           DecryptFile g cypherFilename clearFilename w =
            (case gpgme_DecryptResult g of
               Inl e' \<Rightarrow>
                 ((None, [], [], ''DecryptFile - DecryptVerify: no encrypted data'',
                   Some (Errorf ''DecryptFile - DecryptResult failed: '' (Some e'))),
                  w\<lparr>trace := trace w @ [Os_Stat cypherFilename, Call_New, Call_SetProtocol,
                     Call_NewData_in, Call_SetFileName_in cypherFilename, Call_NewData_out,
                     Os_Stat destination, Call_SetFileName_out destination,
                     Call_DecryptVerify cypherFilename destination, Call_DecryptResult]\<rparr>)
             | Inr decryptionResult \<Rightarrow>
                (case gpgme_VerifyResult g of
                   Inl e' \<Rightarrow>
                     ((Some decryptionResult, [], [],
                       ''DecryptFile - DecryptVerify: no encrypted data'',
                       Some (Errorf ''DecryptFile - VerifyResult failed: '' (Some e'))),
                      w\<lparr>trace := trace w @ [Os_Stat cypherFilename, Call_New, Call_SetProtocol,
                         Call_NewData_in, Call_SetFileName_in cypherFilename, Call_NewData_out,
                         Os_Stat destination, Call_SetFileName_out destination,
                         Call_DecryptVerify cypherFilename destination, Call_DecryptResult,
                         Call_VerifyResult]\<rparr>)
                 | Inr (filename, signatures) \<Rightarrow>
                     ((Some decryptionResult, filename, signatures,
                       ''DecryptFile - DecryptVerify: no encrypted data'', None),
                      w\<lparr>trace := trace w @ [Os_Stat cypherFilename, Call_New, Call_SetProtocol,
                         Call_NewData_in, Call_SetFileName_in cypherFilename, Call_NewData_out,
                         Os_Stat destination, Call_SetFileName_out destination,
                         Call_DecryptVerify cypherFilename destination, Call_DecryptResult,
                         Call_VerifyResult]\<rparr>)))) \<and>
         (Error e \<noteq> ''No data'' \<longrightarrow>
           DecryptFile g cypherFilename clearFilename w =
             ((None, [], [], [],
               Some (Errorf ''DecryptFile - DecryptVerify failed: '' (Some e))),
              w\<lparr>trace := trace w @ [Os_Stat cypherFilename, Call_New, Call_SetProtocol,
                 Call_NewData_in, Call_SetFileName_in cypherFilename, Call_NewData_out,
                 Os_Stat destination, Call_SetFileName_out destination,
                 Call_DecryptVerify cypherFilename destination]\<rparr>))"
  using assms
  by (simp add: DecryptFile_def DecryptFile_results_def Let_def os_Stat_def emit_def split: sum.split)

theorem DecryptFile_no_data_is_warning_witness:
  "os_Stat (files (demo_world ''a.gpg'')) ''a.gpg'' = Inr False \<and>
   DecryptFile_destination ''a.gpg'' [] = Inr ''a'' \<and>
   files (demo_world ''a.gpg'') ''a'' = None \<and>
   gpgme_DecryptVerify (demo_engine_decrypt_fails ''No data'') (files (demo_world ''a.gpg''))
     ''a.gpg'' ''a'' = Inl (Foreign ''No data'') \<and>
   Error (Foreign ''No data'') = ''No data'' \<and>
   DecryptFile (demo_engine_decrypt_fails ''No data'') ''a.gpg'' [] (demo_world ''a.gpg'') =
     ((Some 0, [], [], ''DecryptFile - DecryptVerify: no encrypted data'', None),
      (demo_world ''a.gpg'')\<lparr>trace := [Os_Stat ''a.gpg'', Call_New, Call_SetProtocol,
         Call_NewData_in, Call_SetFileName_in ''a.gpg'', Call_NewData_out, Os_Stat ''a'',
         Call_SetFileName_out ''a'', Call_DecryptVerify ''a.gpg'' ''a'', Call_DecryptResult,
         Call_VerifyResult]\<rparr>) \<and>
   gpgme_DecryptVerify (demo_engine_decrypt_fails ''Bad data'') (files (demo_world ''a.gpg''))
     ''a.gpg'' ''a'' = Inl (Foreign ''Bad data'') \<and>
   Error (Foreign ''Bad data'') \<noteq> ''No data'' \<and>
   DecryptFile (demo_engine_decrypt_fails ''Bad data'') ''a.gpg'' [] (demo_world ''a.gpg'') =
     ((None, [], [], [],
       Some (Errorf ''DecryptFile - DecryptVerify failed: '' (Some (Foreign ''Bad data'')))),
      (demo_world ''a.gpg'')\<lparr>trace := [Os_Stat ''a.gpg'', Call_New, Call_SetProtocol,
         Call_NewData_in, Call_SetFileName_in ''a.gpg'', Call_NewData_out, Os_Stat ''a'',
         Call_SetFileName_out ''a'', Call_DecryptVerify ''a.gpg'' ''a'']\<rparr>)"
proof -
  have s: "os_Stat (files (demo_world ''a.gpg'')) ''a.gpg'' = Inr False"
    by (simp add: demo_world_def os_Stat_def)
  have d: "DecryptFile_destination ''a.gpg'' [] = Inr ''a''"
    by (simp add: DecryptFile_destination_def)
  have f: "files (demo_world ''a.gpg'') ''a'' = None"
    by (simp add: demo_world_def)
  have t: "trace (demo_world ''a.gpg'') = []"
    by (simp add: demo_world_def)
  have e: "gpgme_New (demo_engine_decrypt_fails msg) = None"
          "gpgme_SetProtocol (demo_engine_decrypt_fails msg) = None"
          "gpgme_NewData_in (demo_engine_decrypt_fails msg) = None"
          "gpgme_SetFileName_in (demo_engine_decrypt_fails msg) ''a.gpg'' = None"
          "gpgme_NewData_out (demo_engine_decrypt_fails msg) = None"
          "gpgme_SetFileName_out (demo_engine_decrypt_fails msg) ''a'' = None"
          "gpgme_DecryptVerify (demo_engine_decrypt_fails msg) (files (demo_world ''a.gpg''))
             ''a.gpg'' ''a'' = Inl (Foreign msg)"
          "gpgme_DecryptResult (demo_engine_decrypt_fails msg) = Inr 0"
          "gpgme_VerifyResult (demo_engine_decrypt_fails msg) = Inr ([], [])" for msg
    by (simp_all add: demo_engine_decrypt_fails_def demo_engine_def)
  show ?thesis
    using DecryptFile_no_data_is_warning
            [OF s e(1) e(2) e(3) e(4) e(5) d f e(6) e(7), of "''No data''"]
          DecryptFile_no_data_is_warning
            [OF s e(1) e(2) e(3) e(4) e(5) d f e(6) e(7), of "''Bad data''"]
          s d f t e(7) [of "''No data''"] e(7) [of "''Bad data''"]
          e(8) [of "''No data''"] e(9) [of "''No data''"]
    by simp
qed

text \<open>
  A name ends in one of the three extensions after a non-empty stem exactly when
  it passes the test of the source: more than four bytes, the last four being the
  extension.
\<close>

lemma stem_and_extension_iff:
  "(\<exists>stem ext. stem \<noteq> [] \<and> ext \<in> {''.gpg'', ''.pgp'', ''.asc''} \<and> name = stem @ ext) \<longleftrightarrow>
   (length name > 4 \<and> drop (length name - 4) name \<in> {''.gpg'', ''.pgp'', ''.asc''})"
proof
  assume "\<exists>stem ext. stem \<noteq> [] \<and> ext \<in> {''.gpg'', ''.pgp'', ''.asc''} \<and> name = stem @ ext"
  then obtain stem ext where
    se: "stem \<noteq> []" "ext \<in> {''.gpg'', ''.pgp'', ''.asc''}" "name = stem @ ext"
    by blast
  from se(2) have "length ext = 4" by auto
  with se show "length name > 4 \<and> drop (length name - 4) name \<in> {''.gpg'', ''.pgp'', ''.asc''}"
    by (auto simp: length_greater_0_conv [symmetric] simp del: length_greater_0_conv)
next
  assume a: "length name > 4 \<and> drop (length name - 4) name \<in> {''.gpg'', ''.pgp'', ''.asc''}"
  have "name = take (length name - 4) name @ drop (length name - 4) name" by simp
  moreover have "take (length name - 4) name \<noteq> []" using a by auto
  ultimately show
    "\<exists>stem ext. stem \<noteq> [] \<and> ext \<in> {''.gpg'', ''.pgp'', ''.asc''} \<and> name = stem @ ext"
    using a by blast
qed

text \<open>
  Claim C4, as amended. An explicit destination is used as it is. Without one, a
  source name that has a non-empty stem before one of the extensions \<open>.gpg\<close>, \<open>.pgp\<close>
  and \<open>.asc\<close> (compared byte by byte, so case matters) gives the stem; every other
  name, among them a name that is nothing but the extension, gives the
  no-extension error. Thus \<open>report.txt.gpg\<close> gives \<open>report.txt\<close>, and \<open>report.bin\<close>
  the error. Once the source file is found to be a regular file and the context and
  data handles are set up, \<open>DecryptFile\<close> returns that error as it is, and otherwise
  goes on with the destination: it is the path looked up next and, when it is free,
  the output name of the engine's decryption.
\<close>

theorem DecryptFile_destination_inference:
  "(clearFilename \<noteq> [] \<longrightarrow>
      DecryptFile_destination cypherFilename clearFilename = Inr clearFilename) \<and>
   (stem \<noteq> [] \<and> ext \<in> {''.gpg'', ''.pgp'', ''.asc''} \<longrightarrow>
      DecryptFile_destination (stem @ ext) [] = Inr stem) \<and>
   (\<not> (\<exists>s x. s \<noteq> [] \<and> x \<in> {''.gpg'', ''.pgp'', ''.asc''} \<and> name = s @ x) \<longrightarrow>
      DecryptFile_destination name [] = Inl no_extension_error) \<and>
   DecryptFile_destination ''report.txt.gpg'' [] = Inr ''report.txt'' \<and>
   DecryptFile_destination ''report.bin'' [] = Inl no_extension_error \<and>
   (os_Stat (files w) cy = Inr False \<and> gpgme_New g = None \<and> gpgme_SetProtocol g = None \<and>
    gpgme_NewData_in g = None \<and> gpgme_SetFileName_in g cy = None \<and>
    gpgme_NewData_out g = None \<longrightarrow>
      (DecryptFile_destination cy cl = Inl err \<longrightarrow>
         DecryptFile g cy cl w =
           ((None, [], [], [], Some err),
            w\<lparr>trace := trace w @ [Os_Stat cy, Call_New, Call_SetProtocol, Call_NewData_in,
               Call_SetFileName_in cy, Call_NewData_out]\<rparr>)) \<and>
      (DecryptFile_destination cy cl = Inr d \<longrightarrow>
         (\<exists>evs. trace (snd (DecryptFile g cy cl w)) =
                  trace w @ [Os_Stat cy, Call_New, Call_SetProtocol, Call_NewData_in,
                    Call_SetFileName_in cy, Call_NewData_out, Os_Stat d] @ evs)) \<and>
      (DecryptFile_destination cy cl = Inr d \<and> files w d = None \<and>
       gpgme_SetFileName_out g d = None \<longrightarrow>
         (\<exists>evs. trace (snd (DecryptFile g cy cl w)) =
                  trace w @ [Os_Stat cy, Call_New, Call_SetProtocol, Call_NewData_in,
                    Call_SetFileName_in cy, Call_NewData_out, Os_Stat d,
                    Call_SetFileName_out d, Call_DecryptVerify cy d] @ evs)))"
proof -
  have explicit: "clearFilename \<noteq> [] \<longrightarrow>
      DecryptFile_destination cypherFilename clearFilename = Inr clearFilename"
    by (simp add: DecryptFile_destination_def)
  have strip: "stem \<noteq> [] \<and> ext \<in> {''.gpg'', ''.pgp'', ''.asc''} \<longrightarrow>
      DecryptFile_destination (stem @ ext) [] = Inr stem"
    by (auto simp: DecryptFile_destination_def)
  have other: "\<not> (\<exists>s x. s \<noteq> [] \<and> x \<in> {''.gpg'', ''.pgp'', ''.asc''} \<and> name = s @ x) \<longrightarrow>
      DecryptFile_destination name [] = Inl no_extension_error"
  proof
    assume "\<not> (\<exists>s x. s \<noteq> [] \<and> x \<in> {''.gpg'', ''.pgp'', ''.asc''} \<and> name = s @ x)"
    then have "\<not> (length name > 4 \<and> drop (length name - 4) name \<in> {''.gpg'', ''.pgp'', ''.asc''})"
      using stem_and_extension_iff [of name] by blast
    then show "DecryptFile_destination name [] = Inl no_extension_error"
      by (auto simp: DecryptFile_destination_def)
  qed
  have ex1: "DecryptFile_destination ''report.txt.gpg'' [] = Inr ''report.txt''"
    by (simp add: DecryptFile_destination_def)
  have ex2: "DecryptFile_destination ''report.bin'' [] = Inl no_extension_error"
    by (simp add: DecryptFile_destination_def)
  obtain res w' where eq: "DecryptFile g cy cl w = (res, w')"
    by (cases "DecryptFile g cy cl w")
  have run: "os_Stat (files w) cy = Inr False \<and> gpgme_New g = None \<and>
    gpgme_SetProtocol g = None \<and> gpgme_NewData_in g = None \<and>
    gpgme_SetFileName_in g cy = None \<and> gpgme_NewData_out g = None \<longrightarrow>
      (DecryptFile_destination cy cl = Inl err \<longrightarrow>
         DecryptFile g cy cl w =
           ((None, [], [], [], Some err),
            w\<lparr>trace := trace w @ [Os_Stat cy, Call_New, Call_SetProtocol, Call_NewData_in,
               Call_SetFileName_in cy, Call_NewData_out]\<rparr>)) \<and>
      (DecryptFile_destination cy cl = Inr d \<longrightarrow>
         (\<exists>evs. trace (snd (DecryptFile g cy cl w)) =
                  trace w @ [Os_Stat cy, Call_New, Call_SetProtocol, Call_NewData_in,
                    Call_SetFileName_in cy, Call_NewData_out, Os_Stat d] @ evs)) \<and>
      (DecryptFile_destination cy cl = Inr d \<and> files w d = None \<and>
       gpgme_SetFileName_out g d = None \<longrightarrow>
         (\<exists>evs. trace (snd (DecryptFile g cy cl w)) =
                  trace w @ [Os_Stat cy, Call_New, Call_SetProtocol, Call_NewData_in,
                    Call_SetFileName_in cy, Call_NewData_out, Os_Stat d,
                    Call_SetFileName_out d, Call_DecryptVerify cy d] @ evs))"
    using eq
    by (auto simp: DecryptFile_def DecryptFile_results_def Let_def emit_def os_Stat_def
          split: if_split_asm sum.split_asm option.split_asm)
  from explicit strip other ex1 ex2 run show ?thesis by blast
qed

theorem DecryptFile_destination_inference_witness:
  "''out.txt'' \<noteq> [] \<and> DecryptFile_destination ''a.gpg'' ''out.txt'' = Inr ''out.txt'' \<and>
   ''key'' \<noteq> [] \<and> ''.asc'' \<in> {''.gpg'', ''.pgp'', ''.asc''} \<and>
   DecryptFile_destination (''key'' @ ''.asc'') [] = Inr ''key'' \<and>
   \<not> (\<exists>s x. s \<noteq> [] \<and> x \<in> {''.gpg'', ''.pgp'', ''.asc''} \<and> ''a.GPG'' = s @ x) \<and>
   DecryptFile_destination ''a.GPG'' [] = Inl no_extension_error \<and>
   os_Stat (files (demo_world ''a.gpg'')) ''a.gpg'' = Inr False \<and>
   gpgme_New demo_engine = None \<and> gpgme_SetProtocol demo_engine = None \<and>
   gpgme_NewData_in demo_engine = None \<and> gpgme_SetFileName_in demo_engine ''a.gpg'' = None \<and>
   gpgme_NewData_out demo_engine = None \<and>
   DecryptFile_destination ''a.gpg'' [] = Inr ''a'' \<and>
   files (demo_world ''a.gpg'') ''a'' = None \<and>
   gpgme_SetFileName_out demo_engine ''a'' = None \<and>
   (\<exists>evs. trace (snd (DecryptFile demo_engine ''a.gpg'' [] (demo_world ''a.gpg''))) =
      trace (demo_world ''a.gpg'') @ [Os_Stat ''a.gpg'', Call_New, Call_SetProtocol,
        Call_NewData_in, Call_SetFileName_in ''a.gpg'', Call_NewData_out, Os_Stat ''a'',
        Call_SetFileName_out ''a'', Call_DecryptVerify ''a.gpg'' ''a''] @ evs)"
proof -
  have n: "\<not> (\<exists>s x. s \<noteq> [] \<and> x \<in> {''.gpg'', ''.pgp'', ''.asc''} \<and> ''a.GPG'' = s @ x)"
  proof -
    have "\<not> (length ''a.GPG'' > 4 \<and>
              drop (length ''a.GPG'' - 4) ''a.GPG'' \<in> {''.gpg'', ''.pgp'', ''.asc''})"
      by simp
    then show ?thesis
      using stem_and_extension_iff [of "''a.GPG''"] by blast
  qed
  have s: "os_Stat (files (demo_world ''a.gpg'')) ''a.gpg'' = Inr False"
    by (simp add: demo_world_def os_Stat_def)
  have e: "gpgme_New demo_engine = None \<and> gpgme_SetProtocol demo_engine = None \<and>
     gpgme_NewData_in demo_engine = None \<and> gpgme_SetFileName_in demo_engine ''a.gpg'' = None \<and>
     gpgme_NewData_out demo_engine = None \<and> gpgme_SetFileName_out demo_engine ''a'' = None"
    by (simp add: demo_engine_def)
  have d: "DecryptFile_destination ''a.gpg'' [] = Inr ''a''"
    by (simp add: DecryptFile_destination_def)
  have f: "files (demo_world ''a.gpg'') ''a'' = None"
    by (simp add: demo_world_def)
  show ?thesis
    using DecryptFile_destination_inference
            [of "''out.txt''" "''a.gpg''" "''key''" "''.asc''" "''a.GPG''"
                "demo_world ''a.gpg''" "''a.gpg''" demo_engine "[]" no_extension_error "''a''"]
          n s e d f
    by simp
qed

text \<open>
  Claim C4 as first stated lets every source name that ends in one of the
  extensions lose it. The name \<open>.gpg\<close> ends in \<open>.gpg\<close>, but it is not longer than
  four bytes, and \<open>DecryptFile\<close> returns the no-extension error and not the empty
  destination.
\<close>

theorem DecryptFile_destination_bare_extension:
  "suffix ''.gpg'' ''.gpg'' \<and>
   DecryptFile_destination ''.gpg'' [] = Inl no_extension_error \<and>
   DecryptFile_destination ''.gpg'' [] \<noteq> Inr (take (length ''.gpg'' - 4) ''.gpg'') \<and>
   fst (DecryptFile demo_engine ''.gpg'' [] (demo_world ''.gpg'')) =
     (None, [], [], [], Some no_extension_error)"
  by (simp add: DecryptFile_def DecryptFile_results_def DecryptFile_destination_def demo_engine_def demo_world_def
        os_Stat_def Let_def)

section \<open>Encryption to a file\<close>




section \<open>Signing and verifying buffers\<close>

text \<open>
  The two read loops, for a stream whose reads \<open>i, \<dots>, k - 1\<close> deliver data with a nil
  error and whose read \<open>k\<close> delivers the first non-nil error: end-of-stream, or a failure.
\<close>

lemma SignBytes_loop_eof:
  assumes "i \<le> k"
    and "\<forall>j. i \<le> j \<and> j < k \<longrightarrow> snd (gpgme_Read g j 10240) = None"
    and "snd (gpgme_Read g k 10240) = Some io_EOF"
  shows "SignBytes_loop g i acc =
     Some (acc @ concat (map (\<lambda>j. fst (gpgme_Read g j 10240)) [i..<Suc k]),
           length (fst (gpgme_Read g k 10240)), Some io_EOF)"
  using assms
proof (induction "k - i" arbitrary: i acc)
  case 0
  then have "i = k" by simp
  with 0 show ?case
    by (subst SignBytes_loop.simps) (simp add: case_prod_beta)
next
  case (Suc d)
  then have lt: "i < k" by simp
  with Suc.prems have none: "snd (gpgme_Read g i 10240) = None" by simp
  have ih: "SignBytes_loop g (Suc i) (acc @ fst (gpgme_Read g i 10240)) =
     Some ((acc @ fst (gpgme_Read g i 10240))
             @ concat (map (\<lambda>j. fst (gpgme_Read g j 10240)) [Suc i..<Suc k]),
           length (fst (gpgme_Read g k 10240)), Some io_EOF)"
    using Suc.hyps Suc.prems lt by (intro Suc.hyps(1)) auto
  have "[i..<Suc k] = i # [Suc i..<Suc k]" using lt by (simp add: upt_conv_Cons)
  then show ?case
    using none ih by (subst SignBytes_loop.simps) (simp add: case_prod_beta)
qed

lemma SignBytes_loop_fail:
  assumes "i \<le> k"
    and "\<forall>j. i \<le> j \<and> j < k \<longrightarrow> snd (gpgme_Read g j 10240) = None"
    and "snd (gpgme_Read g k 10240) = Some e" and "e \<noteq> io_EOF"
  shows "SignBytes_loop g i acc =
     Some (acc @ concat (map (\<lambda>j. fst (gpgme_Read g j 10240)) [i..<k]),
           length (fst (gpgme_Read g k 10240)),
           Some (Errorf ''SignBytes - Read failed: '' (Some e)))"
  using assms
proof (induction "k - i" arbitrary: i acc)
  case 0
  then have "i = k" by simp
  with 0 show ?case
    by (subst SignBytes_loop.simps) (simp add: case_prod_beta)
next
  case (Suc d)
  then have lt: "i < k" by simp
  with Suc.prems have none: "snd (gpgme_Read g i 10240) = None" by simp
  have ih: "SignBytes_loop g (Suc i) (acc @ fst (gpgme_Read g i 10240)) =
     Some ((acc @ fst (gpgme_Read g i 10240))
             @ concat (map (\<lambda>j. fst (gpgme_Read g j 10240)) [Suc i..<k]),
           length (fst (gpgme_Read g k 10240)),
           Some (Errorf ''SignBytes - Read failed: '' (Some e)))"
    using Suc.hyps Suc.prems lt by (intro Suc.hyps(1)) auto
  have "[i..<k] = i # [Suc i..<k]" using lt by (simp add: upt_conv_Cons)
  then show ?case
    using none ih by (subst SignBytes_loop.simps) (simp add: case_prod_beta)
qed

text \<open>Appending a chunk only when it is non-empty is appending it.\<close>

lemma VerifyBytes_loop_unfold:
  "VerifyBytes_loop g i acc =
     (case gpgme_Read g i 10240 of (part, err) \<Rightarrow>
        if err \<noteq> None \<and> err \<noteq> Some io_EOF
        then Some (acc, Some (Errorf ''VerifyBytes - Read failed: '' err))
        else if err = Some io_EOF
        then Some (acc @ part, err)
        else VerifyBytes_loop g (Suc i) (acc @ part))"
  by (subst VerifyBytes_loop.simps) (simp add: case_prod_beta)

lemma VerifyBytes_loop_eof:
  assumes "i \<le> k"
    and "\<forall>j. i \<le> j \<and> j < k \<longrightarrow> snd (gpgme_Read g j 10240) = None"
    and "snd (gpgme_Read g k 10240) = Some io_EOF"
  shows "VerifyBytes_loop g i acc =
     Some (acc @ concat (map (\<lambda>j. fst (gpgme_Read g j 10240)) [i..<Suc k]), Some io_EOF)"
  using assms
proof (induction "k - i" arbitrary: i acc)
  case 0
  then have "i = k" by simp
  with 0 show ?case
    by (subst VerifyBytes_loop_unfold) (simp add: case_prod_beta)
next
  case (Suc d)
  then have lt: "i < k" by simp
  with Suc.prems have none: "snd (gpgme_Read g i 10240) = None" by simp
  have ih: "VerifyBytes_loop g (Suc i) (acc @ fst (gpgme_Read g i 10240)) =
     Some ((acc @ fst (gpgme_Read g i 10240))
             @ concat (map (\<lambda>j. fst (gpgme_Read g j 10240)) [Suc i..<Suc k]),
           Some io_EOF)"
    using Suc.hyps Suc.prems lt by (intro Suc.hyps(1)) auto
  have "[i..<Suc k] = i # [Suc i..<Suc k]" using lt by (simp add: upt_conv_Cons)
  then show ?case
    using none ih by (subst VerifyBytes_loop_unfold) (simp add: case_prod_beta)
qed

text \<open>
  Claim C7, as amended. In \<open>SignBytes\<close>, a read of the output that fails with an error
  other than end-of-stream ends the call: the error is returned wrapped, next to the
  bytes of all earlier reads, which stay in the returned buffer, the count of the
  failing read and the fingerprints. The bytes of the failing read are not appended.
\<close>

theorem SignBytes_read_error:
  assumes "gpgme_New g = None" and "gpgme_SetProtocol g = None"
    and "gpgme_NewData_in g = None" and "gpgme_NewData_out g = None"
    and "gpgme_FindKeys g signWith True = Inr keys"
    and "gpgme_Sign g keys plainText armored = None"
    and "gpgme_Rewind g = None"
    and "\<forall>j. j < k \<longrightarrow> snd (gpgme_Read g j 10240) = None"
    and "snd (gpgme_Read g k 10240) = Some e" and "e \<noteq> io_EOF"
  shows "SignBytes g plainText signWith armored =
     Some (concat (map (\<lambda>j. fst (gpgme_Read g j 10240)) [0..<k]),
           length (fst (gpgme_Read g k 10240)),
           map key_Fingerprint keys,
           Some (Errorf ''SignBytes - Read failed: '' (Some e)))"
proof -
  have "SignBytes_loop g 0 [] =
     Some ([] @ concat (map (\<lambda>j. fst (gpgme_Read g j 10240)) [0..<k]),
           length (fst (gpgme_Read g k 10240)),
           Some (Errorf ''SignBytes - Read failed: '' (Some e)))"
    using assms(8-10) by (intro SignBytes_loop_fail) auto
  with assms(1-7) show ?thesis by (simp add: SignBytes_def)
qed

theorem SignBytes_read_error_witness:
  "gpgme_New demo_engine_read_fails = None \<and>
   gpgme_SetProtocol demo_engine_read_fails = None \<and>
   gpgme_NewData_in demo_engine_read_fails = None \<and>
   gpgme_NewData_out demo_engine_read_fails = None \<and>
   gpgme_FindKeys demo_engine_read_fails ''alice'' True = Inr [demo_key ''alice''] \<and>
   gpgme_Sign demo_engine_read_fails [demo_key ''alice''] [104, 105] True = None \<and>
   gpgme_Rewind demo_engine_read_fails = None \<and>
   snd (gpgme_Read demo_engine_read_fails 0 10240) = None \<and>
   snd (gpgme_Read demo_engine_read_fails 1 10240) = Some (Foreign ''boom'') \<and>
   Foreign ''boom'' \<noteq> io_EOF \<and>
   SignBytes demo_engine_read_fails [104, 105] ''alice'' True =
     Some (concat (map (\<lambda>j. fst (gpgme_Read demo_engine_read_fails j 10240)) [0..<1]),
           length (fst (gpgme_Read demo_engine_read_fails 1 10240)),
           map key_Fingerprint [demo_key ''alice''],
           Some (Errorf ''SignBytes - Read failed: '' (Some (Foreign ''boom''))))"
proof -
  have e: "gpgme_New demo_engine_read_fails = None"
          "gpgme_SetProtocol demo_engine_read_fails = None"
          "gpgme_NewData_in demo_engine_read_fails = None"
          "gpgme_NewData_out demo_engine_read_fails = None"
          "gpgme_FindKeys demo_engine_read_fails ''alice'' True = Inr [demo_key ''alice'']"
          "gpgme_Sign demo_engine_read_fails [demo_key ''alice''] [104, 105] True = None"
          "gpgme_Rewind demo_engine_read_fails = None"
    by (simp_all add: demo_engine_read_fails_def demo_engine_def)
  have r: "\<forall>j. j < 1 \<longrightarrow> snd (gpgme_Read demo_engine_read_fails j 10240) = None"
          "snd (gpgme_Read demo_engine_read_fails 1 10240) = Some (Foreign ''boom'')"
          "Foreign ''boom'' \<noteq> io_EOF"
    by (simp_all add: demo_engine_read_fails_def demo_engine_def)
  have r0: "snd (gpgme_Read demo_engine_read_fails 0 10240) = None"
    using r(1) by simp
  from SignBytes_read_error [OF e r] e r0 r(2,3) show ?thesis
    by (intro conjI) assumption+
qed

text \<open>
  Claim C7 as first stated has the partly filled buffer dropped on a read error. Here
  the first read delivers the bytes \<open>1, 2\<close> and the second one fails: \<open>SignBytes\<close>
  returns the error together with the buffer \<open>[1, 2]\<close>, not with an empty one.
\<close>

theorem SignBytes_read_error_keeps_buffer:
  "SignBytes demo_engine_read_fails [104, 105] ''alice'' True =
     Some ([1, 2], 0, [''alice''],
           Some (Errorf ''SignBytes - Read failed: '' (Some (Foreign ''boom''))))"
proof -
  have "SignBytes_loop demo_engine_read_fails 0 [] =
     Some ([] @ concat (map (\<lambda>j. fst (gpgme_Read demo_engine_read_fails j 10240)) [0..<1]),
           length (fst (gpgme_Read demo_engine_read_fails 1 10240)),
           Some (Errorf ''SignBytes - Read failed: '' (Some (Foreign ''boom''))))"
    by (rule SignBytes_loop_fail)
       (simp_all add: demo_engine_read_fails_def demo_engine_def)
  then have "SignBytes_loop demo_engine_read_fails 0 [] =
     Some ([1, 2], 0, Some (Errorf ''SignBytes - Read failed: '' (Some (Foreign ''boom''))))"
    by (simp add: demo_engine_read_fails_def demo_engine_def)
  then show ?thesis
    by (simp add: SignBytes_def demo_engine_read_fails_def demo_engine_def demo_key_def)
qed

text \<open>
  Claim C9. When every call of the engine succeeds and the reads of the output reach
  end-of-stream, \<open>SignBytes\<close> and \<open>VerifyBytes\<close> return, and the error they return is
  \<open>io.EOF\<close>, not nil: the loop leaves the named result \<open>err\<close> at the value of the last
  read.
\<close>

theorem SignBytes_VerifyBytes_return_EOF:
  assumes "gpgme_New g = None" and "gpgme_SetProtocol g = None"
    and "gpgme_NewData_in g = None" and "gpgme_NewData_out g = None"
    and "gpgme_Rewind g = None"
    and "\<forall>j. j < k \<longrightarrow> snd (gpgme_Read g j 10240) = None"
    and "snd (gpgme_Read g k 10240) = Some io_EOF"
  shows "(gpgme_FindKeys g signWith True = Inr keys \<and>
          gpgme_Sign g keys plainText armored = None \<longrightarrow>
            SignBytes g plainText signWith armored =
              Some (concat (map (\<lambda>j. fst (gpgme_Read g j 10240)) [0..<Suc k]),
                    length (fst (gpgme_Read g k 10240)),
                    map key_Fingerprint keys,
                    Some io_EOF)) \<and>
         (gpgme_Verify g cipherText = Inr (filename, signatures) \<longrightarrow>
            VerifyBytes g cipherText =
              Some (concat (map (\<lambda>j. fst (gpgme_Read g j 10240)) [0..<Suc k]),
                    signatures, filename, Some io_EOF))"
proof -
  have s: "SignBytes_loop g 0 [] =
     Some ([] @ concat (map (\<lambda>j. fst (gpgme_Read g j 10240)) [0..<Suc k]),
           length (fst (gpgme_Read g k 10240)), Some io_EOF)"
    using assms(6,7) by (intro SignBytes_loop_eof) auto
  have v: "VerifyBytes_loop g 0 [] =
     Some ([] @ concat (map (\<lambda>j. fst (gpgme_Read g j 10240)) [0..<Suc k]), Some io_EOF)"
    using assms(6,7) by (intro VerifyBytes_loop_eof) auto
  from assms(1-5) s v show ?thesis
    by (simp add: SignBytes_def VerifyBytes_def)
qed

theorem SignBytes_VerifyBytes_return_EOF_witness:
  "gpgme_New demo_engine = None \<and> gpgme_SetProtocol demo_engine = None \<and>
   gpgme_NewData_in demo_engine = None \<and> gpgme_NewData_out demo_engine = None \<and>
   gpgme_Rewind demo_engine = None \<and>
   snd (gpgme_Read demo_engine 0 10240) = None \<and>
   snd (gpgme_Read demo_engine 1 10240) = Some io_EOF \<and>
   gpgme_FindKeys demo_engine ''alice'' True = Inr [demo_key ''alice''] \<and>
   gpgme_Sign demo_engine [demo_key ''alice''] [104, 105] True = None \<and>
   gpgme_Verify demo_engine [1, 2, 3] = Inr ([], []) \<and>
   SignBytes demo_engine [104, 105] ''alice'' True =
     Some ([1, 2, 3], 1, [''alice''], Some io_EOF) \<and>
   VerifyBytes demo_engine [1, 2, 3] = Some ([1, 2, 3], [], [], Some io_EOF)"
proof -
  have e: "gpgme_New demo_engine = None" "gpgme_SetProtocol demo_engine = None"
          "gpgme_NewData_in demo_engine = None" "gpgme_NewData_out demo_engine = None"
          "gpgme_Rewind demo_engine = None"
          "\<forall>j. j < 1 \<longrightarrow> snd (gpgme_Read demo_engine j 10240) = None"
          "snd (gpgme_Read demo_engine 1 10240) = Some io_EOF"
    by (simp_all add: demo_engine_def)
  have c: "gpgme_FindKeys demo_engine ''alice'' True = Inr [demo_key ''alice'']"
          "gpgme_Sign demo_engine [demo_key ''alice''] [104, 105] True = None"
          "gpgme_Verify demo_engine [1, 2, 3] = Inr ([], [])"
    by (simp_all add: demo_engine_def)
  have r0: "snd (gpgme_Read demo_engine 0 10240) = None"
    using e(6) by simp
  have chunks: "concat (map (\<lambda>j. fst (gpgme_Read demo_engine j 10240)) [0..<Suc 1]) = [1, 2, 3]"
               "length (fst (gpgme_Read demo_engine 1 10240)) = 1"
               "map key_Fingerprint [demo_key ''alice''] = [''alice'']"
    by (simp_all add: demo_engine_def demo_key_def upt_rec)
  note run = SignBytes_VerifyBytes_return_EOF
               [OF e, of "''alice''" "[demo_key ''alice'']" "[104, 105]" True "[1, 2, 3]" "[]" "[]"]
  from run c have
    s: "SignBytes demo_engine [104, 105] ''alice'' True =
          Some (concat (map (\<lambda>j. fst (gpgme_Read demo_engine j 10240)) [0..<Suc 1]),
                length (fst (gpgme_Read demo_engine 1 10240)),
                map key_Fingerprint [demo_key ''alice''], Some io_EOF)" and
    v: "VerifyBytes demo_engine [1, 2, 3] =
          Some (concat (map (\<lambda>j. fst (gpgme_Read demo_engine j 10240)) [0..<Suc 1]),
                [], [], Some io_EOF)"
    by blast+
  from s v have
    "SignBytes demo_engine [104, 105] ''alice'' True = Some ([1, 2, 3], 1, [''alice''], Some io_EOF)"
    "VerifyBytes demo_engine [1, 2, 3] = Some ([1, 2, 3], [], [], Some io_EOF)"
    by (simp_all only: chunks)
  with e(1-5,7) r0 c show ?thesis
    by (intro conjI) assumption+
qed

section \<open>The key and signature records\<close>

text \<open>What the two loops of \<open>fillUidSignatures\<close> leave under an issuer.\<close>

lemma collect_sigs_eq:
  "collect_sigs xs m keyID =
     (if filter (\<lambda>sig. sig_KeyID sig = keyID) xs = [] then m keyID
      else Some ((case m keyID of None \<Rightarrow> [] | Some s \<Rightarrow> s)
                   @ map oneSig_of (filter (\<lambda>sig. sig_KeyID sig = keyID) xs)))"
  by (induction xs arbitrary: m) (auto simp: Let_def split: option.splits)

lemma fillUidSignatures_eq:
  "fillUidSignatures SortFunc uid keyID =
     (if filter (\<lambda>sig. sig_KeyID sig = keyID) (uid_Signatures uid) = [] then None
      else Some (SortFunc cmp_CreationTime
                   (map oneSig_of (filter (\<lambda>sig. sig_KeyID sig = keyID) (uid_Signatures uid)))))"
  by (simp add: fillUidSignatures_def collect_sigs_eq)

lemma cmp_CreationTime_neg:
  "\<not> cmp_CreationTime b a < 0 \<longleftrightarrow> S_CreationTime b \<le> S_CreationTime a"
  by (auto simp: cmp_CreationTime_def time_Compare_def)

lemma SortFunc_sorts_desc:
  assumes "SortFunc_sorts SortFunc cmp_CreationTime"
  shows "sorted_wrt (\<lambda>a b. S_CreationTime a \<ge> S_CreationTime b) (SortFunc cmp_CreationTime xs)"
    and "mset (SortFunc cmp_CreationTime xs) = mset xs"
  using assms by (simp_all add: SortFunc_sorts_def cmp_CreationTime_neg)

lemma S_CreationTime_oneSig [simp]: "S_CreationTime (oneSig_of sig) = sig_Created sig"
  by (simp add: oneSig_of_def)

lemma length_fillUserIDs [simp]: "length (fillUserIDs SortFunc uids) = length uids"
  by (induction uids) auto

lemma fillUserIDs_Nil_iff [simp]: "fillUserIDs SortFunc uids = [] \<longleftrightarrow> uids = []"
  by (cases uids) auto

lemma U_Signatures_nth:
  "i < length uids \<Longrightarrow>
     U_Signatures (fillUserIDs SortFunc uids ! i) =
       (if uid_HasSig (uids ! i) then fillUidSignatures SortFunc (uids ! i) else Map.empty)"
proof (induction uids arbitrary: i)
  case Nil
  then show ?case by simp
next
  case (Cons a uids)
  then show ?case by (cases i) auto
qed

text \<open>A descending list of three distinct instants is determined by its elements.\<close>

lemma descending_three:
  fixes ts :: "int list"
  assumes "sorted_wrt (\<lambda>a b. a \<ge> b) ts" and "mset ts = {#t1, t2, t3#}"
    and "t1 < t2" and "t2 < t3"
  shows "ts = [t3, t2, t1]"
proof -
  have s: "sorted (rev ts)" using assms(1) by (simp add: sorted_wrt_rev)
  have m: "mset (rev ts) = mset [t1, t2, t3]" using assms(2) by (simp add: add_mset_commute)
  have "sort [t1, t2, t3] = rev ts" by (rule properties_for_sort [OF m s])
  moreover have "sort [t1, t2, t3] = [t1, t2, t3]"
    using assms(3,4) by (intro sorted_sort_id) simp
  ultimately have "rev ts = [t1, t2, t3]" by simp
  then have "rev (rev ts) = rev [t1, t2, t3]" by (rule arg_cong)
  then show ?thesis by simp
qed

text \<open>Sorting by insertion does what \<open>SortFunc_sorts\<close> asks for.\<close>

lemma mset_insert_by [simp]: "mset (insert_by cmp x xs) = add_mset x (mset xs)"
  by (induction xs) auto

lemma mset_insertion_SortFunc: "mset (insertion_SortFunc cmp xs) = mset xs"
  by (induction xs) (auto simp: insertion_SortFunc_def)

lemma set_insert_by [simp]: "set (insert_by cmp x xs) = insert x (set xs)"
  by (induction xs) auto

lemma sorted_insert_by:
  "sorted_wrt (\<lambda>a b. S_CreationTime b \<le> S_CreationTime a) xs \<Longrightarrow>
   sorted_wrt (\<lambda>a b. S_CreationTime b \<le> S_CreationTime a) (insert_by cmp_CreationTime x xs)"
  by (induction xs) (auto simp: cmp_CreationTime_def time_Compare_def split: if_split_asm)

lemma insertion_SortFunc_sorts: "SortFunc_sorts insertion_SortFunc cmp_CreationTime"
proof -
  have "sorted_wrt (\<lambda>a b. S_CreationTime b \<le> S_CreationTime a)
          (insertion_SortFunc cmp_CreationTime xs)" for xs
    by (induction xs) (auto simp: insertion_SortFunc_def intro: sorted_insert_by)
  then show ?thesis
    by (simp add: SortFunc_sorts_def mset_insertion_SortFunc cmp_CreationTime_neg)
qed

text \<open>
  Claim C5. In every user ID record of a built key, the signatures kept under an
  issuer are in descending order of their creation time. For a user ID that has, from
  one issuer, three signatures created at \<open>t1 < t2 < t3\<close> (in any order, among the
  signatures of other issuers), the creation times under that issuer are exactly
  \<open>[t3, t2, t1]\<close>. Both hold for every sorting function that keeps what Go's library
  promises of \<open>slices.SortFunc\<close>.
\<close>

theorem fillKey_signatures_descending:
  assumes srt: "SortFunc_sorts SortFunc cmp_CreationTime"
  shows "(U \<in> set (K_UserIDs (fillKey SortFunc k)) \<and> U_Signatures U keyID = Some s \<longrightarrow>
            sorted_wrt (\<lambda>a b. S_CreationTime a \<ge> S_CreationTime b) s) \<and>
         (key_HasUserIDs k \<and> i < length (key_UserIDs k) \<and> uid_HasSig (key_UserIDs k ! i) \<and>
          mset (map sig_Created
                 (filter (\<lambda>sig. sig_KeyID sig = issuer) (uid_Signatures (key_UserIDs k ! i))))
             = {#t1, t2, t3#} \<and> t1 < t2 \<and> t2 < t3 \<longrightarrow>
            map_option (map S_CreationTime)
              (U_Signatures (K_UserIDs (fillKey SortFunc k) ! i) issuer)
              = Some [t3, t2, t1])"
proof (intro conjI impI)
  assume a: "U \<in> set (K_UserIDs (fillKey SortFunc k)) \<and> U_Signatures U keyID = Some s"
  then have "U \<in> set (fillUserIDs SortFunc (key_UserIDs k))"
    by (auto simp: fillKey_def split: if_split_asm)
  then obtain j where j: "j < length (key_UserIDs k)"
    and U: "U = fillUserIDs SortFunc (key_UserIDs k) ! j"
    by (auto simp: in_set_conv_nth)
  from a U j have "(if uid_HasSig (key_UserIDs k ! j)
                    then fillUidSignatures SortFunc (key_UserIDs k ! j)
                    else Map.empty) keyID = Some s"
    by (simp add: U_Signatures_nth)
  then obtain xs where "s = SortFunc cmp_CreationTime xs"
    by (auto simp: fillUidSignatures_eq split: if_split_asm)
  then show "sorted_wrt (\<lambda>a b. S_CreationTime a \<ge> S_CreationTime b) s"
    using SortFunc_sorts_desc(1) [OF srt] by simp
next
  assume a: "key_HasUserIDs k \<and> i < length (key_UserIDs k) \<and> uid_HasSig (key_UserIDs k ! i) \<and>
          mset (map sig_Created
                 (filter (\<lambda>sig. sig_KeyID sig = issuer) (uid_Signatures (key_UserIDs k ! i))))
             = {#t1, t2, t3#} \<and> t1 < t2 \<and> t2 < t3"
  let ?xs = "filter (\<lambda>sig. sig_KeyID sig = issuer) (uid_Signatures (key_UserIDs k ! i))"
  let ?s = "SortFunc cmp_CreationTime (map oneSig_of ?xs)"
  have ne: "?xs \<noteq> []"
  proof
    assume "?xs = []"
    then have "mset (map sig_Created ?xs) = {#}" by simp
    with a show False by simp
  qed
  have sig: "U_Signatures (K_UserIDs (fillKey SortFunc k) ! i) issuer = Some ?s"
    using a ne by (simp add: fillKey_def U_Signatures_nth fillUidSignatures_eq)
  have "mset (map S_CreationTime ?s) = image_mset S_CreationTime (mset (map oneSig_of ?xs))"
    using SortFunc_sorts_desc(2) [OF srt, of "map oneSig_of ?xs"] by (metis mset_map)
  also have "\<dots> = mset (map sig_Created ?xs)"
    by (simp add: image_mset.compositionality comp_def)
  finally have m: "mset (map S_CreationTime ?s) = {#t1, t2, t3#}" using a by simp
  have "sorted_wrt (\<lambda>a b. a \<ge> b) (map S_CreationTime ?s)"
    using SortFunc_sorts_desc(1) [OF srt, of "map oneSig_of ?xs"] by (simp add: sorted_wrt_map)
  from descending_three [OF this m] a have "map S_CreationTime ?s = [t3, t2, t1]" by simp
  with sig show "map_option (map S_CreationTime)
              (U_Signatures (K_UserIDs (fillKey SortFunc k) ! i) issuer)
              = Some [t3, t2, t1]" by simp
qed

theorem fillKey_signatures_descending_witness:
  "SortFunc_sorts insertion_SortFunc cmp_CreationTime \<and>
   K_UserIDs (fillKey insertion_SortFunc demo_signed_key) ! 0
     \<in> set (K_UserIDs (fillKey insertion_SortFunc demo_signed_key)) \<and>
   U_Signatures (K_UserIDs (fillKey insertion_SortFunc demo_signed_key) ! 0) ''AAAA''
     = Some [oneSig_of (demo_sig ''AAAA'' 30), oneSig_of (demo_sig ''AAAA'' 20),
             oneSig_of (demo_sig ''AAAA'' 10)] \<and>
   sorted_wrt (\<lambda>a b. S_CreationTime a \<ge> S_CreationTime b)
     [oneSig_of (demo_sig ''AAAA'' 30), oneSig_of (demo_sig ''AAAA'' 20),
      oneSig_of (demo_sig ''AAAA'' 10)] \<and>
   key_HasUserIDs demo_signed_key \<and> (0::nat) < length (key_UserIDs demo_signed_key) \<and>
   uid_HasSig (key_UserIDs demo_signed_key ! 0) \<and>
   mset (map sig_Created
          (filter (\<lambda>sig. sig_KeyID sig = ''AAAA'')
             (uid_Signatures (key_UserIDs demo_signed_key ! 0))))
     = {#10, 20, 30#} \<and>
   (10::int) < 20 \<and> (20::int) < 30 \<and>
   map_option (map S_CreationTime)
     (U_Signatures (K_UserIDs (fillKey insertion_SortFunc demo_signed_key) ! 0) ''AAAA'')
     = Some [30, 20, 10]"
proof -
  let ?U = "K_UserIDs (fillKey insertion_SortFunc demo_signed_key) ! 0"
  let ?s = "[oneSig_of (demo_sig ''AAAA'' 30), oneSig_of (demo_sig ''AAAA'' 20),
             oneSig_of (demo_sig ''AAAA'' 10)]"
  have mem: "?U \<in> set (K_UserIDs (fillKey insertion_SortFunc demo_signed_key))"
    by (simp add: fillKey_def demo_signed_key_def demo_key_def)
  have sigs: "U_Signatures ?U ''AAAA'' = Some ?s"
    by (simp add: fillKey_def demo_signed_key_def demo_key_def demo_uid_def
          fillUidSignatures_eq insertion_SortFunc_def demo_sig_def cmp_CreationTime_def
          time_Compare_def)
  have h: "key_HasUserIDs demo_signed_key \<and> (0::nat) < length (key_UserIDs demo_signed_key) \<and>
     uid_HasSig (key_UserIDs demo_signed_key ! 0) \<and>
     mset (map sig_Created
            (filter (\<lambda>sig. sig_KeyID sig = ''AAAA'')
               (uid_Signatures (key_UserIDs demo_signed_key ! 0))))
       = {#10, 20, 30#} \<and>
     (10::int) < 20 \<and> (20::int) < 30"
    by (simp add: demo_signed_key_def demo_key_def demo_uid_def demo_sig_def
          add_mset_commute)
  note run = fillKey_signatures_descending
      [OF insertion_SortFunc_sorts, of ?U demo_signed_key "''AAAA''" ?s 0 "''AAAA''" 10 20 30]
  from run mem sigs have
    sorted: "sorted_wrt (\<lambda>a b. S_CreationTime a \<ge> S_CreationTime b) ?s"
    by blast
  from run h have times: "map_option (map S_CreationTime) (U_Signatures ?U ''AAAA'')
     = Some [30, 20, 10]"
    by blast
  from insertion_SortFunc_sorts mem sigs sorted h times show ?thesis
    by (elim conjE, intro conjI) assumption+
qed

text \<open>A record without the flag has no user IDs, whatever the handle.\<close>

lemma fillKey_no_flag_no_user_ids:
  "\<not> K_HasUserIDs (fillKey SortFunc k) \<Longrightarrow> K_UserIDs (fillKey SortFunc k) = []"
  by (simp add: fillKey_def)



end
